theory Spec2Isabelle
  imports Main "HOL-Library.Sublist"
begin

section \<open>JavaScript values\<close>

text \<open>
  The script builds nested object literals and hands them to the client library.
  A value of the script is a primitive, a reference to an object that exists before
  the call at hand (\<open>JRef\<close>: the address is the object's identity), or an object or
  array literal that the call builds fresh (\<open>JObj\<close>, \<open>JArr\<close>: a tree, with its
  properties in the order of the source). The parameter \<open>tokenLocation\<close> has type
  \<open>any\<close>, so it ranges over all of these. The number literals of the script are all
  integers; no function below inspects the payload of a number, a bigint or a symbol.
\<close>

type_synonym addr = nat

datatype jsval =
    JUndefined
  | JNull
  | JBool bool
  | JNum int
  | JBigInt int
  | JSymbol nat
  | JStr string
  | JRef addr
  | JObj "(string \<times> jsval) list"
  | JArr "jsval list"

text \<open>
  \<open>x == o\<close> where the right operand \<open>o\<close> is a reference to an ordinary object (one
  that inherits \<open>toString\<close> and \<open>valueOf\<close> from \<open>Object.prototype\<close>, as every
  object literal of the script does). Two objects are loosely equal when they are the
  same object; a literal built afresh is another object, whatever it holds.
  \<open>null\<close> and \<open>undefined\<close> equal no object. Against any other primitive
  the object is converted to the primitive string \<open>[object Object]\<close> first: a string
  equals it when it is that very string; a boolean, a number and a bigint are compared
  with the number that string converts to, which is NaN and equals nothing; a symbol
  equals no string.
\<close>

fun loose_eq_object :: "jsval \<Rightarrow> addr \<Rightarrow> bool" where
  "loose_eq_object (JRef a) b = (a = b)"
| "loose_eq_object (JObj fields) b = False"
| "loose_eq_object (JArr elems) b = False"
| "loose_eq_object JUndefined b = False"
| "loose_eq_object JNull b = False"
| "loose_eq_object (JStr s) b = (s = ''[object Object]'')"
| "loose_eq_object (JBool x) b = False"
| "loose_eq_object (JNum n) b = False"
| "loose_eq_object (JBigInt n) b = False"
| "loose_eq_object (JSymbol n) b = False"

section \<open>Module constants\<close>

text \<open>
  \<open>WUD_ASSET\<close> and \<open>KSM_ASSET\<close> are object literals bound by \<open>const\<close>: the binding
  is fixed, the object is mutable, so the two descriptors are part of the program
  state. The \<open>location\<close> of a descriptor and \<open>NATIVE_TOKEN_LOCATION\<close> are objects
  that the script passes around by reference and compares by identity; they live in
  the heap of the state, at the three addresses below, each with the literals nested
  under it stored inline (the script never reaches into them).
\<close>

record asset_descriptor =
  token :: string
  name :: string
  symbol :: string
  decimals :: int
  location :: addr
  assetId :: "string option"

definition wud_location_addr :: addr where
  "wud_location_addr = 0"

definition ksm_location_addr :: addr where
  "ksm_location_addr = 1"

definition native_location_addr :: addr where
  "native_location_addr = 2"

definition NATIVE_TOKEN_LOCATION :: jsval where
  "NATIVE_TOKEN_LOCATION = JRef native_location_addr"

definition KUSAMA_ASSET_HUB_PARA_ID :: int where
  "KUSAMA_ASSET_HUB_PARA_ID = 1000"

section \<open>Building the extrinsic\<close>

definition createDummyXCM :: "string \<Rightarrow> jsval" where
  "createDummyXCM beneficiary =
     JObj [(''v4'', JArr [
       JObj [(''DepositAsset'', JObj [
         (''assets'', JObj [(''Wild'', JObj [(''AllCounted'', JStr ''2'')])]),
         (''beneficiary'', JObj [
           (''parents'', JNum 0),
           (''interior'', JObj [(''x1'', JArr [
             JObj [(''AccountId32'', JObj [
               (''network'', JNull),
               (''id'', JStr beneficiary)])]])])])])]])]"

text \<open>
  The seven positional arguments that \<open>createTransferExtrinsic\<close> passes to
  \<open>api.tx.polkadotXcm.transferAssetsUsingTypeAndThen\<close>. That method belongs to the
  client library: it either throws or returns a submittable extrinsic, which is
  modelled as the method's arguments, wrapped.
\<close>

record transfer_args =
  arg_destination :: jsval
  arg_assets :: jsval
  arg_reserveType :: string
  arg_feeAsset :: jsval
  arg_feeReserveType :: string
  arg_customXcm :: jsval
  arg_weightLimit :: string

datatype extrinsic = Extrinsic transfer_args

text \<open>Exceptions are \<open>Error\<close> objects; the script reads their \<open>message\<close> only.\<close>

datatype exn = Error string

fun message :: "exn \<Rightarrow> string" where
  "message (Error m) = m"

text \<open>
  The library's \<open>Result\<close> codec with its accessors \<open>isOk\<close>, \<open>asOk\<close> and
  \<open>asErr\<close>. A dry run returns \<open>Result<CallDryRunEffects, XcmDryRunApiError>\<close>, of
  which the script reads \<open>executionResult\<close>, again a \<open>Result\<close>. An error payload is
  represented by the JSON value its \<open>toHuman()\<close> returns.
\<close>

datatype ('a, 'e) result = isOk: Ok (asOk: 'a) | Err (asErr: 'e)

record call_dry_run_effects =
  executionResult :: "(jsval, jsval) result"

type_synonym dry_run_result = "(call_dry_run_effects, jsval) result"

section \<open>The world outside the script\<close>

text \<open>
  An \<open>api\<close> is a handle on the connection that its provider opened to an endpoint.
  A remote call is awaited: the trace records when it is sent and when its promise
  settles. Console output is recorded argument by argument; \<open>JsonStringify v\<close> is the
  text \<open>JSON.stringify(v, null, 2)\<close> and \<open>ErrObj e\<close> an error object printed as such.
\<close>

datatype api = ApiPromise string

datatype remote = Create | DryRun jsval extrinsic int | Disconnect

datatype console_arg = Str string | JsonStringify jsval | ErrObj exn

datatype event =
    ConsoleLog "console_arg list"
  | ConsoleError "console_arg list"
  | Open string
  | Sent api remote
  | Settled api remote

text \<open>
  Everything the script does not define: the environment and arguments of the process,
  and the behaviour of the client library and of the node behind it. Each library call
  may throw (or its promise reject); a remote reply may depend on what happened before,
  so the node is given the trace so far. Every awaited promise is taken to settle.
\<close>

record world =
  process_env :: "string \<rightharpoonup> string"
  import_meta_url :: string
  argv1 :: string
  WsProvider_error :: "string \<Rightarrow> exn option"
  create_error :: "string \<Rightarrow> exn option"
  tx_error :: "api \<Rightarrow> transfer_args \<Rightarrow> exn option"
  dry_run_reply :: "event list \<Rightarrow> api \<Rightarrow> jsval \<Rightarrow> extrinsic \<Rightarrow> int \<Rightarrow> exn + dry_run_result"
  disconnect_error :: "event list \<Rightarrow> api \<Rightarrow> exn option"

section \<open>Program state\<close>

record state =
  WUD_ASSET :: asset_descriptor
  KSM_ASSET :: asset_descriptor
  heap :: "addr \<rightharpoonup> (string \<times> jsval) list"
  trace :: "event list"

text \<open>The state once the module's top-level declarations have been evaluated.\<close>

definition module_init :: state where
  "module_init =
     \<lparr>WUD_ASSET =
        \<lparr>token = ''0x5fdcd48f09fb67de3d202cd854b372aec1100ed5'',
         name = ''GAVUN WUD'',
         symbol = ''WUD'',
         decimals = 10,
         location = wud_location_addr,
         assetId = Some ''31337''\<rparr>,
      KSM_ASSET =
        \<lparr>token = ''0x12bbfdc9e813614eef8dc8a2560b0efbeaf7c2ab'',
         name = ''Kusama'',
         symbol = ''KSM'',
         decimals = 12,
         location = ksm_location_addr,
         assetId = None\<rparr>,
      heap =
        [wud_location_addr \<mapsto>
           [(''parents'', JNum 0),
            (''interior'', JObj [(''x2'', JArr [
               JObj [(''palletInstance'', JNum 50)],
               JObj [(''generalIndex'', JNum 31337)]])])],
         ksm_location_addr \<mapsto>
           [(''parents'', JNum 2),
            (''interior'', JObj [(''x1'', JArr [
               JObj [(''globalConsensus'', JObj [(''kusama'', JNull)])]])])],
         native_location_addr \<mapsto>
           [(''parents'', JNum 1),
            (''interior'', JStr ''Here'')]],
      trace = []\<rparr>"

definition emit :: "event \<Rightarrow> state \<Rightarrow> state" where
  "emit e s = s\<lparr>trace := trace s @ [e]\<rparr>"

definition console_log :: "console_arg list \<Rightarrow> state \<Rightarrow> state" where
  "console_log args s = emit (ConsoleLog args) s"

definition console_error :: "console_arg list \<Rightarrow> state \<Rightarrow> state" where
  "console_error args s = emit (ConsoleError args) s"

text \<open>How a function of the driver ends: it returns, it throws, or the process exits.\<close>

datatype 'a completion = Normal 'a | Thrown exn | Exited int

section \<open>createTransferExtrinsic\<close>

definition createTransferExtrinsic_args ::
  "state \<Rightarrow> jsval \<Rightarrow> string \<Rightarrow> string \<Rightarrow> string \<Rightarrow> string \<Rightarrow> transfer_args" where
  "createTransferExtrinsic_args s tokenLocation amount destFee assetOrder beneficiary =
     (let destination =
            JObj [(''v4'', JObj [
              (''parents'', JNum 2),
              (''interior'', JObj [(''x2'', JArr [
                 JObj [(''GlobalConsensus'', JObj [(''Kusama'', JNull)])],
                 JObj [(''parachain'', JNum KUSAMA_ASSET_HUB_PARA_ID)]])])])];
          reserveType =
            (if loose_eq_object tokenLocation (location (KSM_ASSET s))
             then ''DestinationReserve'' else ''LocalReserve'');
          assets =
            (if assetOrder = ''token-first'' then
               JObj [(''v4'', JArr [
                 JObj [(''id'', tokenLocation), (''fun'', JObj [(''Fungible'', JStr amount)])],
                 JObj [(''id'', NATIVE_TOKEN_LOCATION), (''fun'', JObj [(''Fungible'', JStr destFee)])]])]
             else
               JObj [(''v4'', JArr [
                 JObj [(''id'', NATIVE_TOKEN_LOCATION), (''fun'', JObj [(''Fungible'', JStr destFee)])],
                 JObj [(''id'', tokenLocation), (''fun'', JObj [(''Fungible'', JStr amount)])]])]);
          feeAsset = JObj [(''v4'', NATIVE_TOKEN_LOCATION)];
          customXcm = createDummyXCM beneficiary
      in \<lparr>arg_destination = destination,
          arg_assets = assets,
          arg_reserveType = reserveType,
          arg_feeAsset = feeAsset,
          arg_feeReserveType = ''LocalReserve'',
          arg_customXcm = customXcm,
          arg_weightLimit = ''Unlimited''\<rparr>)"

text \<open>
  The function reads the state (\<open>KSM_ASSET.location\<close>) and writes nothing; it throws
  what the library method throws.
\<close>

definition createTransferExtrinsic ::
  "world \<Rightarrow> api \<Rightarrow> jsval \<Rightarrow> string \<Rightarrow> string \<Rightarrow> string \<Rightarrow> string \<Rightarrow> state
     \<Rightarrow> (exn + extrinsic) \<times> state" where
  "createTransferExtrinsic w api tokenLocation amount destFee assetOrder beneficiary s =
     (let args = createTransferExtrinsic_args s tokenLocation amount destFee assetOrder beneficiary
      in case tx_error w api args of
           Some e \<Rightarrow> (Inl e, s)
         | None \<Rightarrow> (Inr (Extrinsic args), s))"

section \<open>testAssetOrdering\<close>

text \<open>
  The messages of the script start with glyphs outside ASCII; each is given here as the
  UTF-8 bytes that the source file holds between the quotes.
\<close>

definition glyph_ok :: string where
  "glyph_ok = [CHR 0xC3, CHR 0xA2, CHR 0xC5, CHR 0x93, CHR 0xE2, CHR 0x80, CHR 0xA6]"

definition glyph_fail :: string where
  "glyph_fail = [CHR 0xC3, CHR 0xA2, CHR 0xC5, CHR 0x92]"

definition glyph_details :: string where
  "glyph_details =
     [CHR 0xC4, CHR 0x9F, CHR 0xC5, CHR 0xB8, CHR 0xE2, CHR 0x80, CHR 0x9C, CHR 0xE2, CHR 0x80, CHR 0xB9]"

definition glyph_title :: string where
  "glyph_title = [CHR 0xC4, CHR 0x9F, CHR 0xC5, CHR 0xB8, CHR 0xE2, CHR 0x80, CHR 0x9D]"

definition glyph_connect :: string where
  "glyph_connect =
     [CHR 0xC4, CHR 0x9F, CHR 0xC5, CHR 0xB8, CHR 0xE2, CHR 0x80, CHR 0x9C, CHR 0xC2, CHR 0xA1]"

text \<open>
  What either \<open>try\<close> block does with the result of the dry run: the \<open>success\<close>
  flag (\<open>&&\<close> reads \<open>asOk\<close> only when \<open>isOk\<close> holds), the outcome line, and the
  error details when the flag is false. The two blocks of the source differ in the
  label of the ordering only, \<open>token-first\<close> and \<open>DOT-first\<close>.
\<close>

definition report_dry_run :: "string \<Rightarrow> string \<Rightarrow> dry_run_result \<Rightarrow> state \<Rightarrow> state" where
  "report_dry_run assetSymbol label dryRunResult s =
     (let success =
            (if isOk dryRunResult then isOk (executionResult (asOk dryRunResult)) else False);
          s1 = console_log
                 [Str (''   '' @ (if success then glyph_ok else glyph_fail) @ '' '' @ assetSymbol @ '' ''
                       @ label @ '': '' @ (if success then ''SUCCESS'' else ''FAILED''))] s
      in if \<not> success then
           (let error =
                  (if isOk dryRunResult
                   then asErr (executionResult (asOk dryRunResult))
                   else asErr dryRunResult)
            in console_log [Str (''   '' @ glyph_details @ '' Error details:''), JsonStringify error] s1)
         else s1)"

text \<open>
  One \<open>try\<close>/\<open>catch\<close> block: the awaited call of \<open>api.call.dryRunApi.dryRunCall\<close>
  with origin \<open>{system: {signed: testAccount}}\<close>, the extrinsic and the version 4,
  then the report; a rejection is caught and logged with its message.
\<close>

definition signed_origin :: "string \<Rightarrow> jsval" where
  "signed_origin testAccount = JObj [(''system'', JObj [(''signed'', JStr testAccount)])]"

definition dry_run_and_report ::
  "world \<Rightarrow> api \<Rightarrow> string \<Rightarrow> string \<Rightarrow> string \<Rightarrow> extrinsic \<Rightarrow> state \<Rightarrow> state" where
  "dry_run_and_report w api assetSymbol label testAccount tx s =
     (let origin = signed_origin testAccount;
          s1 = emit (Sent api (DryRun origin tx 4)) s
      in case dry_run_reply w (trace s) api origin tx 4 of
           Inr dryRunResult \<Rightarrow>
             report_dry_run assetSymbol label dryRunResult (emit (Settled api (DryRun origin tx 4)) s1)
         | Inl error \<Rightarrow>
             console_log
               [Str (''   '' @ glyph_fail @ '' '' @ assetSymbol @ '' '' @ label @ '': EXCEPTION -''),
                Str (message error)]
               (emit (Settled api (DryRun origin tx 4)) s1))"

text \<open>
  The parameter \<open>asset\<close> is one of the two descriptors: the function reads its
  \<open>symbol\<close> and its \<open>location\<close>, which it passes on as a reference. An exception of
  \<open>createTransferExtrinsic\<close> is outside both \<open>try\<close> blocks and leaves the function.
\<close>

definition testAssetOrdering ::
  "world \<Rightarrow> api \<Rightarrow> asset_descriptor \<Rightarrow> string \<Rightarrow> string \<Rightarrow> string \<Rightarrow> state
     \<Rightarrow> (exn + unit) \<times> state" where
  "testAssetOrdering w api asset testAccount amount fee s =
     (let s1 = console_log
                 [Str (''1. Testing '' @ symbol asset @ '' with token-first ordering...'')] s
      in case createTransferExtrinsic w api (JRef (location asset)) amount fee
                ''token-first'' testAccount s1 of
           (Inl e, s2) \<Rightarrow> (Inl e, s2)
         | (Inr tokenFirstTx, s2) \<Rightarrow>
             (let s3 = dry_run_and_report w api (symbol asset) ''token-first'' testAccount
                         tokenFirstTx s2;
                  s4 = console_log
                         [Str (''2. Testing '' @ symbol asset @ '' with DOT-first ordering...'')] s3
              in case createTransferExtrinsic w api (JRef (location asset)) amount fee
                        ''dot-first'' testAccount s4 of
                   (Inl e, s5) \<Rightarrow> (Inl e, s5)
                 | (Inr dotFirstTx, s5) \<Rightarrow>
                     (Inr (), dry_run_and_report w api (symbol asset) ''DOT-first'' testAccount
                                dotFirstTx s5)))"

section \<open>The driver\<close>

text \<open>
  \<open>process.env.POLKADOT_ASSET_HUB_WSS || "wss://..."\<close>: the operator \<open>||\<close> yields its
  right operand when the left one is falsy, which for a variable of the environment is
  \<open>undefined\<close> (not set) or the empty string.
\<close>

definition POLKADOT_ASSET_HUB_WSS :: "world \<Rightarrow> string" where
  "POLKADOT_ASSET_HUB_WSS w =
     (case process_env w ''POLKADOT_ASSET_HUB_WSS'' of
        None \<Rightarrow> ''wss://polkadot-asset-hub-rpc.polkadot.io''
      | Some v \<Rightarrow> if v = [] then ''wss://polkadot-asset-hub-rpc.polkadot.io'' else v)"

text \<open>
  The body of the \<open>try\<close> block of \<open>demonstrateAssetOrderingBug\<close>, with its constants
  \<open>testAccount\<close> and \<open>amount\<close>. The constructor of \<open>WsProvider\<close> opens the
  connection; \<open>ApiPromise.create\<close> and \<open>api.disconnect\<close> are awaited.
\<close>

definition demo_testAccount :: string where
  "demo_testAccount = ''0x460411e07f93dc4bc2b3a6cb67dad89ca26e8a54054d13916f74c982595c2e0e''"

definition demo_amount :: string where
  "demo_amount = ''50000000000''"

definition demonstrateAssetOrderingBug_try :: "world \<Rightarrow> string \<Rightarrow> state \<Rightarrow> (exn + unit) \<times> state" where
  "demonstrateAssetOrderingBug_try w endpoint s =
     (case WsProvider_error w endpoint of
        Some e \<Rightarrow> (Inl e, s)
      | None \<Rightarrow>
          (let api = ApiPromise endpoint;
               s1 = emit (Sent api Create) (emit (Open endpoint) s)
           in case create_error w endpoint of
                Some e \<Rightarrow> (Inl e, emit (Settled api Create) s1)
              | None \<Rightarrow>
                  (let s2 = emit (Settled api Create) s1;
                       testAccount = demo_testAccount;
                       amount = demo_amount
                   in case testAssetOrdering w api (WUD_ASSET s2) testAccount amount ''29876830'' s2 of
                        (Inl e, s3) \<Rightarrow> (Inl e, s3)
                      | (Inr u, s3) \<Rightarrow>
                          (case testAssetOrdering w api (KSM_ASSET s3) testAccount amount
                                  ''18718740000'' s3 of
                             (Inl e, s4) \<Rightarrow> (Inl e, s4)
                           | (Inr u', s4) \<Rightarrow>
                               (let s5 = emit (Sent api Disconnect) s4
                                in case disconnect_error w (trace s4) api of
                                     Some e \<Rightarrow> (Inl e, emit (Settled api Disconnect) s5)
                                   | None \<Rightarrow> (Inr (), emit (Settled api Disconnect) s5))))))"

definition demonstrateAssetOrderingBug :: "world \<Rightarrow> state \<Rightarrow> unit completion \<times> state" where
  "demonstrateAssetOrderingBug w s =
     (let s1 = console_log
                 [Str (glyph_title @ '' Polkadot JS API Asset Ordering Bug Demonstration'')] s;
          s2 = console_log [Str (replicate 60 (CHR ''=''))] s1;
          s3 = console_log
                 [Str ''This script demonstrates that asset order matters in transferAssetsUsingTypeAndThen''] s2;
          s4 = console_log [Str []] s3;
          s5 = console_log
                 [Str (glyph_connect @ '' Connecting to Polkadot Asset Hub: ''
                       @ POLKADOT_ASSET_HUB_WSS w)] s4
      in case demonstrateAssetOrderingBug_try w (POLKADOT_ASSET_HUB_WSS w) s5 of
           (Inl error, s6) \<Rightarrow>
             (Exited 1, console_error [Str (glyph_fail @ '' Error:''), Str (message error)] s6)
         | (Inr u, s6) \<Rightarrow> (Normal (), s6))"

text \<open>
  The module's last statement: the driver runs when the module is the script that was
  started; a rejection of its promise is reported and the process exits with code 1.
\<close>

definition main :: "world \<Rightarrow> state \<Rightarrow> unit completion \<times> state" where
  "main w s =
     (if import_meta_url w = ''file://'' @ argv1 w then
        (case demonstrateAssetOrderingBug w s of
           (Thrown error, s') \<Rightarrow>
             (Exited 1, console_error [Str (glyph_fail @ '' Demo failed:''), ErrObj error] s')
         | (Normal u, s') \<Rightarrow> (Normal u, s')
         | (Exited c, s') \<Rightarrow> (Exited c, s'))
      else (Normal (), s))"

section \<open>Observations on a trace\<close>

text \<open>
  The events of a trace other than console output, in their order: connections opened,
  remote calls sent, and their promises settling.
\<close>

fun is_console :: "event \<Rightarrow> bool" where
  "is_console (ConsoleLog args) = True"
| "is_console (ConsoleError args) = True"
| "is_console (Open endpoint) = False"
| "is_console (Sent a r) = False"
| "is_console (Settled a r) = False"

definition remote_events :: "event list \<Rightarrow> event list" where
  "remote_events es = filter (\<lambda>e. \<not> is_console e) es"

text \<open>The extrinsics submitted to \<open>dryRunCall\<close>, in the order of the calls.\<close>

primrec dry_run_calls :: "event list \<Rightarrow> extrinsic list" where
  "dry_run_calls [] = []"
| "dry_run_calls (e # es) =
     (case e of
        Sent a (DryRun orig tx v) \<Rightarrow> tx # dry_run_calls es
      | _ \<Rightarrow> dry_run_calls es)"

text \<open>The endpoints to which a connection was opened.\<close>

primrec opened :: "event list \<Rightarrow> string list" where
  "opened [] = []"
| "opened (e # es) = (case e of Open endpoint \<Rightarrow> endpoint # opened es | _ \<Rightarrow> opened es)"

text \<open>The remote calls sent, each with the handle it was sent on.\<close>

primrec sent_calls :: "event list \<Rightarrow> (api \<times> remote) list" where
  "sent_calls [] = []"
| "sent_calls (e # es) = (case e of Sent a r \<Rightarrow> (a, r) # sent_calls es | _ \<Rightarrow> sent_calls es)"

text \<open>
  The remote calls in flight: a call enters when it is sent and leaves when its promise
  settles. \<open>max_in_flight p es\<close> is the largest number of calls in flight at any
  moment of \<open>es\<close>, starting with the calls \<open>p\<close> in flight.
\<close>

fun in_flight_step :: "(api \<times> remote) list \<Rightarrow> event \<Rightarrow> (api \<times> remote) list" where
  "in_flight_step p (Sent a r) = (a, r) # p"
| "in_flight_step p (Settled a r) = remove1 (a, r) p"
| "in_flight_step p (ConsoleLog args) = p"
| "in_flight_step p (ConsoleError args) = p"
| "in_flight_step p (Open endpoint) = p"

primrec max_in_flight :: "(api \<times> remote) list \<Rightarrow> event list \<Rightarrow> nat" where
  "max_in_flight p [] = length p"
| "max_in_flight p (e # es) = max (length p) (max_in_flight (in_flight_step p e) es)"

section \<open>Sequences of calls\<close>

text \<open>
  Any caller of the two functions that take the module's state: a call names its
  arguments, the asset being one of the two constants or any other descriptor.
\<close>

datatype asset_arg = The_WUD_ASSET | The_KSM_ASSET | Descriptor asset_descriptor

fun asset_of :: "state \<Rightarrow> asset_arg \<Rightarrow> asset_descriptor" where
  "asset_of s The_WUD_ASSET = WUD_ASSET s"
| "asset_of s The_KSM_ASSET = KSM_ASSET s"
| "asset_of s (Descriptor d) = d"

datatype call =
    Call_createTransferExtrinsic api jsval string string string string
  | Call_testAssetOrdering api asset_arg string string string

fun run_call :: "world \<Rightarrow> call \<Rightarrow> state \<Rightarrow> state" where
  "run_call w (Call_createTransferExtrinsic api tokenLocation amount destFee assetOrder beneficiary) s =
     snd (createTransferExtrinsic w api tokenLocation amount destFee assetOrder beneficiary s)"
| "run_call w (Call_testAssetOrdering api asset testAccount amount fee) s =
     snd (testAssetOrdering w api (asset_of s asset) testAccount amount fee s)"

primrec run_calls :: "world \<Rightarrow> call list \<Rightarrow> state \<Rightarrow> state" where
  "run_calls w [] s = s"
| "run_calls w (c # cs) s = run_calls w cs (run_call w c s)"

section \<open>Example worlds\<close>

text \<open>A node that is reachable and executes every dry run.\<close>

definition world_all_ok :: world where
  "world_all_ok =
     \<lparr>process_env = Map.empty,
      import_meta_url = ''file:///demo.ts'',
      argv1 = ''/demo.ts'',
      WsProvider_error = (\<lambda>endpoint. None),
      create_error = (\<lambda>endpoint. None),
      tx_error = (\<lambda>a args. None),
      dry_run_reply = (\<lambda>hist a orig tx v. Inr (Ok \<lparr>executionResult = Ok JNull\<rparr>)),
      disconnect_error = (\<lambda>hist a. None)\<rparr>"

text \<open>A node whose runtime rejects every dry-run call.\<close>

definition world_dry_run_rejects :: world where
  "world_dry_run_rejects =
     world_all_ok\<lparr>dry_run_reply := (\<lambda>hist a orig tx v. Inl (Error ''wasm unreachable''))\<rparr>"



text \<open>A node that cannot be reached: \<open>ApiPromise.create\<close> rejects.\<close>

definition world_node_down :: world where
  "world_node_down =
     world_all_ok\<lparr>create_error := (\<lambda>endpoint. Some (Error ''connect ECONNREFUSED''))\<rparr>"

text \<open>
  The endpoint variable set to an address that the constructor of \<open>WsProvider\<close>
  refuses: it accepts the schemes \<open>ws\<close> and \<open>wss\<close> only.
\<close>

definition world_bad_endpoint :: world where
  "world_bad_endpoint =
     world_all_ok
       \<lparr>process_env := [''POLKADOT_ASSET_HUB_WSS'' \<mapsto> ''http://127.0.0.1:9944''],
        WsProvider_error :=
          (\<lambda>endpoint.
             if take 5 endpoint = ''ws://'' \<or> take 6 endpoint = ''wss://'' then None
             else Some (Error ''Endpoint should start with ws://''))\<rparr>"

text \<open>The endpoint variable set, to another address and to the empty string.\<close>

definition world_custom_endpoint :: world where
  "world_custom_endpoint =
     world_all_ok\<lparr>process_env := [''POLKADOT_ASSET_HUB_WSS'' \<mapsto> ''ws://127.0.0.1:9944'']\<rparr>"

definition world_empty_endpoint :: world where
  "world_empty_endpoint =
     world_all_ok\<lparr>process_env := [''POLKADOT_ASSET_HUB_WSS'' \<mapsto> []]\<rparr>"

section \<open>The remote events of a run in which nothing throws\<close>

text \<open>
  Written out for the proofs: the connection and the creation of the api, then for WUD
  and for KSM the two dry runs, each sent and settled, then the disconnect. The remote
  events of every run of the driver are an initial part of this list.
\<close>

definition dry_run_events :: "api \<Rightarrow> string \<Rightarrow> extrinsic \<Rightarrow> event list" where
  "dry_run_events api testAccount tx =
     [Sent api (DryRun (signed_origin testAccount) tx 4),
      Settled api (DryRun (signed_origin testAccount) tx 4)]"

definition demo_tx :: "state \<Rightarrow> asset_descriptor \<Rightarrow> string \<Rightarrow> string \<Rightarrow> extrinsic" where
  "demo_tx s asset fee assetOrder =
     Extrinsic (createTransferExtrinsic_args s (JRef (location asset)) demo_amount fee assetOrder
       demo_testAccount)"

definition complete_run_events :: "world \<Rightarrow> state \<Rightarrow> event list" where
  "complete_run_events w s =
     (let endpoint = POLKADOT_ASSET_HUB_WSS w; api = ApiPromise endpoint
      in [Open endpoint, Sent api Create, Settled api Create]
         @ dry_run_events api demo_testAccount (demo_tx s (WUD_ASSET s) ''29876830'' ''token-first'')
         @ dry_run_events api demo_testAccount (demo_tx s (WUD_ASSET s) ''29876830'' ''dot-first'')
         @ dry_run_events api demo_testAccount (demo_tx s (KSM_ASSET s) ''18718740000'' ''token-first'')
         @ dry_run_events api demo_testAccount (demo_tx s (KSM_ASSET s) ''18718740000'' ''dot-first'')
         @ [Sent api Disconnect, Settled api Disconnect])"

section \<open>What a dry run is expected to print\<close>




section \<open>Basic facts\<close>

lemma loose_eq_object_iff:
  "loose_eq_object v a \<longleftrightarrow> v = JRef a \<or> v = JStr ''[object Object]''"
  by (cases v) auto

lemma remote_events_append:
  "remote_events (xs @ ys) = remote_events xs @ remote_events ys"
  by (simp add: remote_events_def)

lemma emit_fields:
  "trace (emit e s) = trace s @ [e]"
  "WUD_ASSET (emit e s) = WUD_ASSET s"
  "KSM_ASSET (emit e s) = KSM_ASSET s"
  "heap (emit e s) = heap s"
  by (simp_all add: emit_def)

lemma console_log_fields:
  "trace (console_log args s) = trace s @ [ConsoleLog args]"
  "WUD_ASSET (console_log args s) = WUD_ASSET s"
  "KSM_ASSET (console_log args s) = KSM_ASSET s"
  "heap (console_log args s) = heap s"
  by (simp_all add: console_log_def emit_fields)

lemma console_error_fields:
  "trace (console_error args s) = trace s @ [ConsoleError args]"
  "WUD_ASSET (console_error args s) = WUD_ASSET s"
  "KSM_ASSET (console_error args s) = KSM_ASSET s"
  "heap (console_error args s) = heap s"
  by (simp_all add: console_error_def emit_fields)

lemma report_dry_run_globals:
  "WUD_ASSET (report_dry_run a l r s) = WUD_ASSET s"
  "KSM_ASSET (report_dry_run a l r s) = KSM_ASSET s"
  "heap (report_dry_run a l r s) = heap s"
  by (simp_all add: report_dry_run_def Let_def console_log_fields)

lemma report_dry_run_remote:
  "remote_events (trace (report_dry_run a l r s)) = remote_events (trace s)"
  by (simp add: report_dry_run_def Let_def console_log_fields remote_events_def)

lemma dry_run_and_report_globals:
  "WUD_ASSET (dry_run_and_report w api a l acct tx s) = WUD_ASSET s"
  "KSM_ASSET (dry_run_and_report w api a l acct tx s) = KSM_ASSET s"
  "heap (dry_run_and_report w api a l acct tx s) = heap s"
  by (simp_all add: dry_run_and_report_def Let_def report_dry_run_globals console_log_fields
        emit_fields split: sum.splits)

lemma dry_run_and_report_remote:
  "remote_events (trace (dry_run_and_report w api a l acct tx s)) =
     remote_events (trace s) @
       dry_run_events api acct tx"
  by (simp add: dry_run_and_report_def Let_def report_dry_run_remote console_log_fields
        emit_fields remote_events_append split: sum.splits)
     (simp_all add: remote_events_def dry_run_events_def)

lemma createTransferExtrinsic_args_cong:
  "KSM_ASSET s' = KSM_ASSET s \<Longrightarrow>
   createTransferExtrinsic_args s' loc amount fee ord b = createTransferExtrinsic_args s loc amount fee ord b"
  by (simp add: createTransferExtrinsic_args_def)

lemma createTransferExtrinsic_state:
  "snd (createTransferExtrinsic w api loc amount fee ord b s) = s"
  by (simp add: createTransferExtrinsic_def Let_def split: option.splits)

lemma createTransferExtrinsic_result:
  "fst (createTransferExtrinsic w api loc amount fee ord b s) =
     (case tx_error w api (createTransferExtrinsic_args s loc amount fee ord b) of
        Some e \<Rightarrow> Inl e
      | None \<Rightarrow> Inr (Extrinsic (createTransferExtrinsic_args s loc amount fee ord b)))"
  by (simp add: createTransferExtrinsic_def Let_def split: option.splits)

lemma testAssetOrdering_globals:
  "WUD_ASSET (snd (testAssetOrdering w api asset acct amount fee s)) = WUD_ASSET s"
  "KSM_ASSET (snd (testAssetOrdering w api asset acct amount fee s)) = KSM_ASSET s"
  "heap (snd (testAssetOrdering w api asset acct amount fee s)) = heap s"
  by (simp_all add: testAssetOrdering_def createTransferExtrinsic_def Let_def
        dry_run_and_report_globals console_log_fields split: option.splits)


lemma testAssetOrdering_result:
  "fst (testAssetOrdering w api asset acct amount fee s) =
     (case tx_error w api (createTransferExtrinsic_args s (JRef (location asset)) amount fee ''token-first'' acct) of
        Some e \<Rightarrow> Inl e
      | None \<Rightarrow>
          (case tx_error w api (createTransferExtrinsic_args s (JRef (location asset)) amount fee ''dot-first'' acct) of
             Some e \<Rightarrow> Inl e
           | None \<Rightarrow> Inr ()))"
  by (simp add: testAssetOrdering_def createTransferExtrinsic_def Let_def
        createTransferExtrinsic_args_cong [OF dry_run_and_report_globals(2)]
        createTransferExtrinsic_args_cong [OF console_log_fields(3)]
        split: option.splits)

lemma testAssetOrdering_remote:
  "remote_events (trace (snd (testAssetOrdering w api asset acct amount fee s))) =
     remote_events (trace s) @
     (case tx_error w api (createTransferExtrinsic_args s (JRef (location asset)) amount fee ''token-first'' acct) of
        Some e \<Rightarrow> []
      | None \<Rightarrow>
          dry_run_events api acct
            (Extrinsic (createTransferExtrinsic_args s (JRef (location asset)) amount fee ''token-first'' acct))
          @ (case tx_error w api (createTransferExtrinsic_args s (JRef (location asset)) amount fee ''dot-first'' acct) of
               Some e \<Rightarrow> []
             | None \<Rightarrow>
                 dry_run_events api acct
                   (Extrinsic (createTransferExtrinsic_args s (JRef (location asset)) amount fee ''dot-first'' acct))))"
  by (simp add: testAssetOrdering_def createTransferExtrinsic_def Let_def
        createTransferExtrinsic_args_cong [OF dry_run_and_report_globals(2)]
        createTransferExtrinsic_args_cong [OF console_log_fields(3)]
        dry_run_and_report_remote console_log_fields remote_events_append
        split: option.splits)
     (simp add: remote_events_def)


lemma try_block_remote:
  "\<exists>k. remote_events (trace (snd (demonstrateAssetOrderingBug_try w (POLKADOT_ASSET_HUB_WSS w) s))) =
         remote_events (trace s) @ take k (complete_run_events w s)
       \<and> (fst (demonstrateAssetOrderingBug_try w (POLKADOT_ASSET_HUB_WSS w) s) = Inr () \<longrightarrow> 13 \<le> k)
       \<and> (WsProvider_error w (POLKADOT_ASSET_HUB_WSS w) = None \<longleftrightarrow> 3 \<le> k)"
proof -
  define ep where "ep = POLKADOT_ASSET_HUB_WSS w"
  define api where "api = ApiPromise ep"
  define pre where "pre = remote_events (trace s)"
  define s2 where "s2 = emit (Settled api Create) (emit (Sent api Create) (emit (Open ep) s))"
  define t1 where "t1 = testAssetOrdering w api (WUD_ASSET s2) demo_testAccount demo_amount ''29876830'' s2"
  define t2 where
    "t2 = testAssetOrdering w api (KSM_ASSET (snd t1)) demo_testAccount demo_amount ''18718740000'' (snd t1)"
  define s5 where "s5 = emit (Settled api Disconnect) (emit (Sent api Disconnect) (snd t2))"
  define d1 where "d1 = dry_run_events api demo_testAccount (demo_tx s (WUD_ASSET s) ''29876830'' ''token-first'')"
  define d2 where "d2 = dry_run_events api demo_testAccount (demo_tx s (WUD_ASSET s) ''29876830'' ''dot-first'')"
  define d3 where "d3 = dry_run_events api demo_testAccount (demo_tx s (KSM_ASSET s) ''18718740000'' ''token-first'')"
  define d4 where "d4 = dry_run_events api demo_testAccount (demo_tx s (KSM_ASSET s) ''18718740000'' ''dot-first'')"
  define r where "r = demonstrateAssetOrderingBug_try w ep s"
  have full: "complete_run_events w s =
      [Open ep, Sent api Create, Settled api Create] @ d1 @ d2 @ d3 @ d4
      @ [Sent api Disconnect, Settled api Disconnect]"
    by (simp add: complete_run_events_def Let_def ep_def api_def d1_def d2_def d3_def d4_def)
  have len: "length d1 = 2" "length d2 = 2" "length d3 = 2" "length d4 = 2"
    by (simp_all add: d1_def d2_def d3_def d4_def dry_run_events_def)
  have r_unfold: "r =
      (case WsProvider_error w ep of
         Some e \<Rightarrow> (Inl e, s)
       | None \<Rightarrow>
           (case create_error w ep of
              Some e \<Rightarrow> (Inl e, s2)
            | None \<Rightarrow>
                (case fst t1 of
                   Inl e \<Rightarrow> (Inl e, snd t1)
                 | Inr u \<Rightarrow>
                     (case fst t2 of
                        Inl e \<Rightarrow> (Inl e, snd t2)
                      | Inr u' \<Rightarrow>
                          (case disconnect_error w (trace (snd t2)) api of
                             Some e \<Rightarrow> (Inl e, s5)
                           | None \<Rightarrow> (Inr (), s5))))))"
    by (simp add: r_def demonstrateAssetOrderingBug_try_def Let_def case_prod_beta
          api_def s2_def t1_def t2_def s5_def
          split: option.splits sum.splits)
  have s2: "remote_events (trace s2) = pre @ [Open ep, Sent api Create, Settled api Create]"
    by (simp add: s2_def pre_def emit_fields remote_events_def)
  have g2: "WUD_ASSET s2 = WUD_ASSET s" "KSM_ASSET s2 = KSM_ASSET s"
    by (simp_all add: s2_def emit_fields)
  have g3: "WUD_ASSET (snd t1) = WUD_ASSET s" "KSM_ASSET (snd t1) = KSM_ASSET s"
    by (simp_all add: t1_def testAssetOrdering_globals g2)
  have a2: "createTransferExtrinsic_args s2 l a f ord b = createTransferExtrinsic_args s l a f ord b"
    for l a f ord b
    by (rule createTransferExtrinsic_args_cong) (simp add: g2)
  have a3: "createTransferExtrinsic_args (snd t1) l a f ord b = createTransferExtrinsic_args s l a f ord b"
    for l a f ord b
    by (rule createTransferExtrinsic_args_cong) (simp add: g3)
  have t1_cases:
    "(\<exists>e. fst t1 = Inl e) \<and> remote_events (trace (snd t1)) = pre @ [Open ep, Sent api Create, Settled api Create]
     \<or> (\<exists>e. fst t1 = Inl e) \<and> remote_events (trace (snd t1)) = pre @ [Open ep, Sent api Create, Settled api Create] @ d1
     \<or> fst t1 = Inr () \<and> remote_events (trace (snd t1)) = pre @ [Open ep, Sent api Create, Settled api Create] @ d1 @ d2"
    unfolding t1_def testAssetOrdering_result testAssetOrdering_remote s2 g2 a2
    by (simp add: d1_def d2_def demo_tx_def split: option.splits)
  have t2_cases:
    "(\<exists>e. fst t2 = Inl e) \<and> remote_events (trace (snd t2)) = remote_events (trace (snd t1))
     \<or> (\<exists>e. fst t2 = Inl e) \<and> remote_events (trace (snd t2)) = remote_events (trace (snd t1)) @ d3
     \<or> fst t2 = Inr () \<and> remote_events (trace (snd t2)) = remote_events (trace (snd t1)) @ d3 @ d4"
    unfolding t2_def testAssetOrdering_result testAssetOrdering_remote g3 a3
    by (simp add: d3_def d4_def demo_tx_def split: option.splits)
  have s5: "remote_events (trace s5) = remote_events (trace (snd t2)) @ [Sent api Disconnect, Settled api Disconnect]"
    by (simp add: s5_def emit_fields remote_events_def)
  have goal: "\<exists>k. remote_events (trace (snd r)) = pre @ take k (complete_run_events w s)
       \<and> (fst r = Inr () \<longrightarrow> 13 \<le> k) \<and> (WsProvider_error w ep = None \<longleftrightarrow> 3 \<le> k)"
  proof (cases "WsProvider_error w ep")
    case (Some e)
    then show ?thesis
      by (intro exI [of _ 0]) (simp add: r_unfold pre_def)
  next
    case p: None
    show ?thesis
    proof (cases "create_error w ep")
      case (Some e)
      with p s2 show ?thesis
        by (intro exI [of _ 3]) (simp add: r_unfold full)
    next
      case c: None
      from t1_cases show ?thesis
      proof (elim disjE conjE exE)
        fix e assume "fst t1 = Inl e"
          and "remote_events (trace (snd t1)) = pre @ [Open ep, Sent api Create, Settled api Create]"
        with p c show ?thesis
          by (intro exI [of _ 3]) (simp add: r_unfold full)
      next
        fix e assume "fst t1 = Inl e"
          and "remote_events (trace (snd t1)) = pre @ [Open ep, Sent api Create, Settled api Create] @ d1"
        with p c show ?thesis
          by (intro exI [of _ 5]) (simp add: r_unfold full len)
      next
        assume t1: "fst t1 = Inr ()"
          and e1: "remote_events (trace (snd t1)) = pre @ [Open ep, Sent api Create, Settled api Create] @ d1 @ d2"
        from t2_cases show ?thesis
        proof (elim disjE conjE exE)
          fix e assume "fst t2 = Inl e"
            and "remote_events (trace (snd t2)) = remote_events (trace (snd t1))"
          with p c t1 e1 show ?thesis
            by (intro exI [of _ 7]) (simp add: r_unfold full len)
        next
          fix e assume "fst t2 = Inl e"
            and "remote_events (trace (snd t2)) = remote_events (trace (snd t1)) @ d3"
          with p c t1 e1 show ?thesis
            by (intro exI [of _ 9]) (simp add: r_unfold full len)
        next
          assume "fst t2 = Inr ()"
            and "remote_events (trace (snd t2)) = remote_events (trace (snd t1)) @ d3 @ d4"
          with p c t1 e1 s5 show ?thesis
            by (intro exI [of _ 13]) (simp add: r_unfold full len split: option.splits)
        qed
      qed
    qed
  qed
  then show ?thesis
    by (simp add: r_def ep_def pre_def)
qed

subsection \<open>Observations depend on the remote events only\<close>

lemma dry_run_calls_append:
  "dry_run_calls (xs @ ys) = dry_run_calls xs @ dry_run_calls ys"
  by (induction xs) (auto split: event.splits remote.splits)

lemma opened_append:
  "opened (xs @ ys) = opened xs @ opened ys"
  by (induction xs) (auto split: event.splits)

lemma sent_calls_append:
  "sent_calls (xs @ ys) = sent_calls xs @ sent_calls ys"
  by (induction xs) (auto split: event.splits)

lemma dry_run_calls_remote:
  "dry_run_calls (remote_events es) = dry_run_calls es"
  by (induction es) (auto simp: remote_events_def split: event.splits remote.splits)

lemma opened_remote:
  "opened (remote_events es) = opened es"
  by (induction es) (auto simp: remote_events_def split: event.splits)

lemma sent_calls_remote:
  "sent_calls (remote_events es) = sent_calls es"
  by (induction es) (auto simp: remote_events_def split: event.splits)

lemma max_in_flight_ge_start:
  "length p \<le> max_in_flight p es"
  by (cases es) simp_all

lemma max_in_flight_remote:
  "max_in_flight p (remote_events es) = max_in_flight p es"
proof (induction es arbitrary: p)
  case Nil
  then show ?case by (simp add: remote_events_def)
next
  case (Cons e es)
  have ih: "max_in_flight q (filter (\<lambda>e. \<not> is_console e) es) = max_in_flight q es" for q
    using Cons.IH [of q] by (simp add: remote_events_def)
  show ?case
    using max_in_flight_ge_start [of p es]
    by (cases e) (simp_all add: remote_events_def ih)
qed

lemma max_in_flight_append_le:
  "max_in_flight p xs \<le> max_in_flight p (xs @ ys)"
proof (induction xs arbitrary: p)
  case Nil
  then show ?case by (simp add: max_in_flight_ge_start)
next
  case (Cons x xs)
  show ?case
    using Cons.IH [of "in_flight_step p x"] by (auto simp: max_def)
qed

lemma max_in_flight_take_le:
  "max_in_flight p (take k es) \<le> max_in_flight p es"
  using max_in_flight_append_le [of p "take k es" "drop k es"] by simp

lemma dry_run_calls_take_prefix:
  "prefix (dry_run_calls (take k es)) (dry_run_calls es)"
proof -
  have "dry_run_calls es = dry_run_calls (take k es) @ dry_run_calls (drop k es)"
    using dry_run_calls_append [of "take k es" "drop k es"] by simp
  then show ?thesis by (simp add: prefix_def)
qed

subsection \<open>The driver\<close>

lemma demonstrateAssetOrderingBug_remote:
  "\<exists>k. remote_events (trace (snd (demonstrateAssetOrderingBug w s))) =
         remote_events (trace s) @ take k (complete_run_events w s)
       \<and> (fst (demonstrateAssetOrderingBug w s) = Normal () \<longrightarrow> 13 \<le> k)
       \<and> (WsProvider_error w (POLKADOT_ASSET_HUB_WSS w) = None \<longleftrightarrow> 3 \<le> k)"
proof -
  define s5 where "s5 =
    console_log [Str (glyph_connect @ '' Connecting to Polkadot Asset Hub: '' @ POLKADOT_ASSET_HUB_WSS w)]
     (console_log [Str []]
       (console_log [Str ''This script demonstrates that asset order matters in transferAssetsUsingTypeAndThen'']
         (console_log [Str (replicate 60 (CHR ''=''))]
           (console_log [Str (glyph_title @ '' Polkadot JS API Asset Ordering Bug Demonstration'')] s))))"
  define r where "r = demonstrateAssetOrderingBug_try w (POLKADOT_ASSET_HUB_WSS w) s5"
  have pre: "remote_events (trace s5) = remote_events (trace s)"
    by (simp add: s5_def console_log_fields remote_events_def)
  have glob: "WUD_ASSET s5 = WUD_ASSET s" "KSM_ASSET s5 = KSM_ASSET s"
    by (simp_all add: s5_def console_log_fields)
  have full: "complete_run_events w s5 = complete_run_events w s"
    by (simp add: complete_run_events_def demo_tx_def glob
          createTransferExtrinsic_args_cong [OF glob(2)])
  have unfold: "demonstrateAssetOrderingBug w s =
      (case fst r of
         Inl error \<Rightarrow> (Exited 1, console_error [Str (glyph_fail @ '' Error:''), Str (message error)] (snd r))
       | Inr u \<Rightarrow> (Normal (), snd r))"
    by (simp add: demonstrateAssetOrderingBug_def Let_def r_def s5_def case_prod_beta
          split: sum.splits)
  obtain k where k: "remote_events (trace (snd r)) = remote_events (trace s) @ take k (complete_run_events w s)"
      "fst r = Inr () \<longrightarrow> 13 \<le> k"
      "WsProvider_error w (POLKADOT_ASSET_HUB_WSS w) = None \<longleftrightarrow> 3 \<le> k"
    using try_block_remote [of w s5] unfolding r_def [symmetric] pre full by auto
  show ?thesis
  proof (cases "fst r")
    case (Inl e)
    with k show ?thesis
      by (intro exI [of _ k]) (simp add: unfold console_error_fields remote_events_def)
  next
    case (Inr u)
    with k show ?thesis
      by (intro exI [of _ k]) (simp add: unfold)
  qed
qed


lemma complete_run_events_length:
  "length (complete_run_events w s) = 13"
  by (simp add: complete_run_events_def Let_def dry_run_events_def)

lemma complete_run_dry_run_calls:
  "dry_run_calls (complete_run_events w s) =
     [demo_tx s (WUD_ASSET s) ''29876830'' ''token-first'',
      demo_tx s (WUD_ASSET s) ''29876830'' ''dot-first'',
      demo_tx s (KSM_ASSET s) ''18718740000'' ''token-first'',
      demo_tx s (KSM_ASSET s) ''18718740000'' ''dot-first'']"
  by (simp add: complete_run_events_def Let_def dry_run_events_def)

lemma complete_run_max_in_flight:
  "max_in_flight [] (complete_run_events w s) = 1"
  by (simp add: complete_run_events_def Let_def dry_run_events_def)

lemma demonstrateAssetOrderingBug_normal:
  assumes "WsProvider_error w (POLKADOT_ASSET_HUB_WSS w) = None"
    and "create_error w (POLKADOT_ASSET_HUB_WSS w) = None"
    and "\<And>a args. tx_error w a args = None"
    and "\<And>hist a. disconnect_error w hist a = None"
  shows "fst (demonstrateAssetOrderingBug w s) = Normal ()"
proof -
  have t: "fst (testAssetOrdering w a asset acct amount fee s') = Inr ()" for a asset acct amount fee s'
    by (simp add: testAssetOrdering_result assms(3))
  show ?thesis
    by (simp add: demonstrateAssetOrderingBug_def demonstrateAssetOrderingBug_try_def Let_def
          case_prod_beta t assms)
qed

lemma world_all_ok_normal:
  "fst (demonstrateAssetOrderingBug world_all_ok s) = Normal ()"
  by (rule demonstrateAssetOrderingBug_normal) (simp_all add: world_all_ok_def)

lemma demonstrateAssetOrderingBug_dry_run_calls:
  "prefix (dry_run_calls (trace (snd (demonstrateAssetOrderingBug w s))))
     (dry_run_calls (trace s) @ dry_run_calls (complete_run_events w s))"
  "fst (demonstrateAssetOrderingBug w s) = Normal () \<Longrightarrow>
     dry_run_calls (trace (snd (demonstrateAssetOrderingBug w s))) =
       dry_run_calls (trace s) @ dry_run_calls (complete_run_events w s)"
proof -
  obtain k where k:
      "remote_events (trace (snd (demonstrateAssetOrderingBug w s))) =
         remote_events (trace s) @ take k (complete_run_events w s)"
      "fst (demonstrateAssetOrderingBug w s) = Normal () \<longrightarrow> 13 \<le> k"
    using demonstrateAssetOrderingBug_remote [of w s] by auto
  have eq: "dry_run_calls (trace (snd (demonstrateAssetOrderingBug w s))) =
      dry_run_calls (trace s) @ dry_run_calls (take k (complete_run_events w s))"
    using arg_cong [OF k(1), of dry_run_calls]
    by (simp add: dry_run_calls_remote dry_run_calls_append)
  show "prefix (dry_run_calls (trace (snd (demonstrateAssetOrderingBug w s))))
     (dry_run_calls (trace s) @ dry_run_calls (complete_run_events w s))"
    unfolding eq using dry_run_calls_take_prefix [of k "complete_run_events w s"] by simp
  show "dry_run_calls (trace (snd (demonstrateAssetOrderingBug w s))) =
       dry_run_calls (trace s) @ dry_run_calls (complete_run_events w s)"
    if "fst (demonstrateAssetOrderingBug w s) = Normal ()"
    unfolding eq using that k(2) by (simp add: complete_run_events_length)
qed

lemma demonstrateAssetOrderingBug_max_in_flight:
  assumes "remote_events (trace s) = []"
  shows "max_in_flight [] (trace (snd (demonstrateAssetOrderingBug w s))) \<le> 1"
proof -
  obtain k where k:
      "remote_events (trace (snd (demonstrateAssetOrderingBug w s))) =
         remote_events (trace s) @ take k (complete_run_events w s)"
    using demonstrateAssetOrderingBug_remote [of w s] by auto
  have "max_in_flight [] (trace (snd (demonstrateAssetOrderingBug w s))) =
      max_in_flight [] (take k (complete_run_events w s))"
    using arg_cong [OF k, of "max_in_flight []"] assms by (simp add: max_in_flight_remote)
  also have "\<dots> \<le> max_in_flight [] (complete_run_events w s)"
    by (rule max_in_flight_take_le)
  finally show ?thesis
    by (simp add: complete_run_max_in_flight)
qed


lemma run_call_globals:
  "WUD_ASSET (run_call w c s) = WUD_ASSET s"
  "KSM_ASSET (run_call w c s) = KSM_ASSET s"
  "heap (run_call w c s) = heap s"
  by (cases c; simp add: createTransferExtrinsic_state testAssetOrdering_globals)+

lemma run_calls_globals:
  "WUD_ASSET (run_calls w cs s) = WUD_ASSET s
   \<and> KSM_ASSET (run_calls w cs s) = KSM_ASSET s
   \<and> heap (run_calls w cs s) = heap s"
  by (induction cs arbitrary: s) (simp_all add: run_call_globals)


lemma opened_take_prefix:
  "prefix (opened (take k es)) (opened es)"
proof -
  have "opened es = opened (take k es) @ opened (drop k es)"
    using opened_append [of "take k es" "drop k es"] by simp
  then show ?thesis by (simp add: prefix_def)
qed

lemma sent_calls_take_prefix:
  "prefix (sent_calls (take k es)) (sent_calls es)"
proof -
  have "sent_calls es = sent_calls (take k es) @ sent_calls (drop k es)"
    using sent_calls_append [of "take k es" "drop k es"] by simp
  then show ?thesis by (simp add: prefix_def)
qed

lemma complete_run_opened:
  "opened (complete_run_events w s) = [POLKADOT_ASSET_HUB_WSS w]"
  by (simp add: complete_run_events_def Let_def dry_run_events_def)

lemma complete_run_opened_take:
  assumes "3 \<le> k"
  shows "opened (take k (complete_run_events w s)) = [POLKADOT_ASSET_HUB_WSS w]"
proof -
  obtain rest where full: "complete_run_events w s = Open (POLKADOT_ASSET_HUB_WSS w) # rest"
    by (simp add: complete_run_events_def Let_def)
  have "opened (take k (complete_run_events w s)) =
      POLKADOT_ASSET_HUB_WSS w # opened (take (k - 1) rest)"
    using assms by (simp add: full take_Cons')
  moreover have "prefix (opened (take k (complete_run_events w s))) [POLKADOT_ASSET_HUB_WSS w]"
    using opened_take_prefix [of k "complete_run_events w s"] by (simp add: complete_run_opened)
  ultimately show ?thesis
    by simp
qed

lemma complete_run_sent_calls:
  "sent_calls (complete_run_events w s) =
     [(ApiPromise (POLKADOT_ASSET_HUB_WSS w), Create),
      (ApiPromise (POLKADOT_ASSET_HUB_WSS w),
         DryRun (signed_origin demo_testAccount) (demo_tx s (WUD_ASSET s) ''29876830'' ''token-first'') 4),
      (ApiPromise (POLKADOT_ASSET_HUB_WSS w),
         DryRun (signed_origin demo_testAccount) (demo_tx s (WUD_ASSET s) ''29876830'' ''dot-first'') 4),
      (ApiPromise (POLKADOT_ASSET_HUB_WSS w),
         DryRun (signed_origin demo_testAccount) (demo_tx s (KSM_ASSET s) ''18718740000'' ''token-first'') 4),
      (ApiPromise (POLKADOT_ASSET_HUB_WSS w),
         DryRun (signed_origin demo_testAccount) (demo_tx s (KSM_ASSET s) ''18718740000'' ''dot-first'') 4),
      (ApiPromise (POLKADOT_ASSET_HUB_WSS w), Disconnect)]"
  by (simp add: complete_run_events_def Let_def dry_run_events_def)

lemma complete_run_last:
  "last (complete_run_events w s) = Settled (ApiPromise (POLKADOT_ASSET_HUB_WSS w)) Disconnect"
  by (simp add: complete_run_events_def Let_def dry_run_events_def)

lemma demonstrateAssetOrderingBug_connection:
  assumes "remote_events (trace s) = []"
  shows "prefix (opened (trace (snd (demonstrateAssetOrderingBug w s)))) [POLKADOT_ASSET_HUB_WSS w]"
    and "WsProvider_error w (POLKADOT_ASSET_HUB_WSS w) = None \<Longrightarrow>
      opened (trace (snd (demonstrateAssetOrderingBug w s))) = [POLKADOT_ASSET_HUB_WSS w]"
    and "fst ` set (sent_calls (trace (snd (demonstrateAssetOrderingBug w s))))
      \<subseteq> {ApiPromise (POLKADOT_ASSET_HUB_WSS w)}"
    and "fst (demonstrateAssetOrderingBug w s) = Normal () \<Longrightarrow>
      remote_events (trace (snd (demonstrateAssetOrderingBug w s))) = complete_run_events w s"
proof -
  obtain k where k:
      "remote_events (trace (snd (demonstrateAssetOrderingBug w s))) = take k (complete_run_events w s)"
      "fst (demonstrateAssetOrderingBug w s) = Normal () \<longrightarrow> 13 \<le> k"
      "WsProvider_error w (POLKADOT_ASSET_HUB_WSS w) = None \<longleftrightarrow> 3 \<le> k"
    using demonstrateAssetOrderingBug_remote [of w s] assms by auto
  have o: "opened (trace (snd (demonstrateAssetOrderingBug w s))) = opened (take k (complete_run_events w s))"
    using arg_cong [OF k(1), of opened] by (simp add: opened_remote)
  have c: "sent_calls (trace (snd (demonstrateAssetOrderingBug w s))) =
      sent_calls (take k (complete_run_events w s))"
    using arg_cong [OF k(1), of sent_calls] by (simp add: sent_calls_remote)
  show "prefix (opened (trace (snd (demonstrateAssetOrderingBug w s)))) [POLKADOT_ASSET_HUB_WSS w]"
    unfolding o using opened_take_prefix [of k "complete_run_events w s"]
    by (simp add: complete_run_opened)
  show "opened (trace (snd (demonstrateAssetOrderingBug w s))) = [POLKADOT_ASSET_HUB_WSS w]"
    if "WsProvider_error w (POLKADOT_ASSET_HUB_WSS w) = None"
    unfolding o using that k(3) by (simp add: complete_run_opened_take)
  have "set (sent_calls (take k (complete_run_events w s))) \<subseteq> set (sent_calls (complete_run_events w s))"
    by (rule set_mono_prefix) (rule sent_calls_take_prefix)
  then show "fst ` set (sent_calls (trace (snd (demonstrateAssetOrderingBug w s))))
      \<subseteq> {ApiPromise (POLKADOT_ASSET_HUB_WSS w)}"
    unfolding c by (auto simp: complete_run_sent_calls)
  show "remote_events (trace (snd (demonstrateAssetOrderingBug w s))) = complete_run_events w s"
    if "fst (demonstrateAssetOrderingBug w s) = Normal ()"
    using that k(1,2) by (simp add: complete_run_events_length)
qed

lemma module_init_no_events:
  "remote_events (trace module_init) = []"
  by (simp add: module_init_def remote_events_def)

subsection \<open>The environment of the process\<close>

lemma createTransferExtrinsic_env:
  "createTransferExtrinsic (w\<lparr>process_env := pe\<rparr>) api loc amount fee ord b s =
     createTransferExtrinsic w api loc amount fee ord b s"
  by (simp add: createTransferExtrinsic_def)

lemma dry_run_and_report_env:
  "dry_run_and_report (w\<lparr>process_env := pe\<rparr>) api a l acct tx s =
     dry_run_and_report w api a l acct tx s"
  by (simp add: dry_run_and_report_def)

lemma testAssetOrdering_env:
  "testAssetOrdering (w\<lparr>process_env := pe\<rparr>) api asset acct amount fee s =
     testAssetOrdering w api asset acct amount fee s"
  by (simp add: testAssetOrdering_def createTransferExtrinsic_env dry_run_and_report_env
        Let_def case_prod_beta cong: sum.case_cong)

lemma demonstrateAssetOrderingBug_try_env:
  "demonstrateAssetOrderingBug_try (w\<lparr>process_env := pe\<rparr>) endpoint s =
     demonstrateAssetOrderingBug_try w endpoint s"
  by (simp add: demonstrateAssetOrderingBug_try_def testAssetOrdering_env
        Let_def case_prod_beta cong: sum.case_cong option.case_cong)

lemma main_env:
  assumes "pe ''POLKADOT_ASSET_HUB_WSS'' = pe' ''POLKADOT_ASSET_HUB_WSS''"
  shows "main (w\<lparr>process_env := pe\<rparr>) s = main (w\<lparr>process_env := pe'\<rparr>) s"
proof -
  have "POLKADOT_ASSET_HUB_WSS (w\<lparr>process_env := pe\<rparr>) = POLKADOT_ASSET_HUB_WSS (w\<lparr>process_env := pe'\<rparr>)"
    using assms by (simp add: POLKADOT_ASSET_HUB_WSS_def)
  then have "demonstrateAssetOrderingBug (w\<lparr>process_env := pe\<rparr>) s =
      demonstrateAssetOrderingBug (w\<lparr>process_env := pe'\<rparr>) s"
    by (simp add: demonstrateAssetOrderingBug_def demonstrateAssetOrderingBug_try_env
          Let_def case_prod_beta cong: sum.case_cong)
  then show ?thesis
    by (simp add: main_def)
qed

subsection \<open>What is printed\<close>




section \<open>The arguments of the extrinsic\<close>

text \<open>
  C1. For fixed token location, amount, destination fee and beneficiary, the argument
  structures that \<open>createTransferExtrinsic\<close> builds for the flags \<open>token-first\<close>
  and \<open>dot-first\<close> hold the same two \<open>{id, fun}\<close> entries in the \<open>v4\<close> list of
  the assets, in swapped order, and agree on every other argument: the structure for
  \<open>dot-first\<close> is the one for \<open>token-first\<close> with its assets replaced. These
  structures are what \<open>createTransferExtrinsic\<close> passes to the library method: for
  either flag the function returns the extrinsic of that structure, or throws what the
  method throws, and leaves the state as it is.
\<close>

theorem createTransferExtrinsic_orders_swap_assets:
  "arg_assets (createTransferExtrinsic_args s tokenLocation amount destFee ''token-first'' beneficiary) =
     JObj [(''v4'', JArr [
       JObj [(''id'', tokenLocation), (''fun'', JObj [(''Fungible'', JStr amount)])],
       JObj [(''id'', NATIVE_TOKEN_LOCATION), (''fun'', JObj [(''Fungible'', JStr destFee)])]])]
   \<and> arg_assets (createTransferExtrinsic_args s tokenLocation amount destFee ''dot-first'' beneficiary) =
     JObj [(''v4'', JArr [
       JObj [(''id'', NATIVE_TOKEN_LOCATION), (''fun'', JObj [(''Fungible'', JStr destFee)])],
       JObj [(''id'', tokenLocation), (''fun'', JObj [(''Fungible'', JStr amount)])]])]
   \<and> createTransferExtrinsic_args s tokenLocation amount destFee ''dot-first'' beneficiary =
       (createTransferExtrinsic_args s tokenLocation amount destFee ''token-first'' beneficiary)
         \<lparr>arg_assets :=
            arg_assets (createTransferExtrinsic_args s tokenLocation amount destFee ''dot-first'' beneficiary)\<rparr>
   \<and> createTransferExtrinsic w api tokenLocation amount destFee ''token-first'' beneficiary s =
       ((case tx_error w api
                (createTransferExtrinsic_args s tokenLocation amount destFee ''token-first'' beneficiary) of
           Some e \<Rightarrow> Inl e
         | None \<Rightarrow>
             Inr (Extrinsic
               (createTransferExtrinsic_args s tokenLocation amount destFee ''token-first'' beneficiary))),
        s)
   \<and> createTransferExtrinsic w api tokenLocation amount destFee ''dot-first'' beneficiary s =
       ((case tx_error w api
                (createTransferExtrinsic_args s tokenLocation amount destFee ''dot-first'' beneficiary) of
           Some e \<Rightarrow> Inl e
         | None \<Rightarrow>
             Inr (Extrinsic
               (createTransferExtrinsic_args s tokenLocation amount destFee ''dot-first'' beneficiary))),
        s)"
  by (simp add: createTransferExtrinsic_args_def createTransferExtrinsic_def split: option.splits)

theorem createTransferExtrinsic_orders_swap_assets_witness:
  "createTransferExtrinsic_args module_init (JRef wud_location_addr) ''50000000000'' ''29876830''
       ''dot-first'' ''0x46'' =
     (createTransferExtrinsic_args module_init (JRef wud_location_addr) ''50000000000'' ''29876830''
       ''token-first'' ''0x46'')
       \<lparr>arg_assets := JObj [(''v4'', JArr [
          JObj [(''id'', JRef 2), (''fun'', JObj [(''Fungible'', JStr ''29876830'')])],
          JObj [(''id'', JRef 0), (''fun'', JObj [(''Fungible'', JStr ''50000000000'')])]])]\<rparr>"
  using createTransferExtrinsic_orders_swap_assets
          [where s = module_init and tokenLocation = "JRef wud_location_addr"
             and amount = "''50000000000''" and destFee = "''29876830''" and beneficiary = "''0x46''"
             and w = world_all_ok and api = "ApiPromise ''ws://127.0.0.1:9944''"]
  by (auto simp: NATIVE_TOKEN_LOCATION_def native_location_addr_def wud_location_addr_def)

text \<open>
  C2. The assets argument is one of two literal shapes, and the order flag alone
  selects which: the token entry followed by the DOT entry for \<open>token-first\<close>, the
  DOT entry followed by the token entry otherwise, so for \<open>dot-first\<close>. The
  function does nothing else: it hands the arguments to the library method, returns the
  extrinsic or throws what the method throws, and leaves the state as it is.
\<close>

theorem createTransferExtrinsic_assets_by_flag:
  "arg_assets (createTransferExtrinsic_args s tokenLocation amount destFee assetOrder beneficiary) =
     (if assetOrder = ''token-first'' then
        JObj [(''v4'', JArr [
          JObj [(''id'', tokenLocation), (''fun'', JObj [(''Fungible'', JStr amount)])],
          JObj [(''id'', JRef native_location_addr), (''fun'', JObj [(''Fungible'', JStr destFee)])]])]
      else
        JObj [(''v4'', JArr [
          JObj [(''id'', JRef native_location_addr), (''fun'', JObj [(''Fungible'', JStr destFee)])],
          JObj [(''id'', tokenLocation), (''fun'', JObj [(''Fungible'', JStr amount)])]])])
   \<and> arg_assets (createTransferExtrinsic_args s tokenLocation amount destFee ''dot-first'' beneficiary) =
        JObj [(''v4'', JArr [
          JObj [(''id'', JRef native_location_addr), (''fun'', JObj [(''Fungible'', JStr destFee)])],
          JObj [(''id'', tokenLocation), (''fun'', JObj [(''Fungible'', JStr amount)])]])]
   \<and> createTransferExtrinsic w api tokenLocation amount destFee assetOrder beneficiary s =
       ((case tx_error w api
                (createTransferExtrinsic_args s tokenLocation amount destFee assetOrder beneficiary) of
           Some e \<Rightarrow> Inl e
         | None \<Rightarrow>
             Inr (Extrinsic
               (createTransferExtrinsic_args s tokenLocation amount destFee assetOrder beneficiary))),
        s)"
  by (simp add: createTransferExtrinsic_args_def createTransferExtrinsic_def
        NATIVE_TOKEN_LOCATION_def split: option.splits)

theorem createTransferExtrinsic_assets_by_flag_witness:
  "arg_assets (createTransferExtrinsic_args module_init (JRef ksm_location_addr) ''50000000000''
       ''18718740000'' ''token-first'' ''0x46'') =
     JObj [(''v4'', JArr [
       JObj [(''id'', JRef 1), (''fun'', JObj [(''Fungible'', JStr ''50000000000'')])],
       JObj [(''id'', JRef 2), (''fun'', JObj [(''Fungible'', JStr ''18718740000'')])]])]
   \<and> arg_assets (createTransferExtrinsic_args module_init (JRef ksm_location_addr) ''50000000000''
       ''18718740000'' ''dot-first'' ''0x46'') =
     JObj [(''v4'', JArr [
       JObj [(''id'', JRef 2), (''fun'', JObj [(''Fungible'', JStr ''18718740000'')])],
       JObj [(''id'', JRef 1), (''fun'', JObj [(''Fungible'', JStr ''50000000000'')])]])]"
  using createTransferExtrinsic_assets_by_flag
          [where s = module_init and tokenLocation = "JRef ksm_location_addr"
             and amount = "''50000000000''" and destFee = "''18718740000''"
             and assetOrder = "''token-first''" and beneficiary = "''0x46''"
             and w = world_all_ok and api = "ApiPromise ''ws://127.0.0.1:9944''"]
  by (simp add: native_location_addr_def ksm_location_addr_def)

text \<open>
  C10. For every value of \<open>tokenLocation\<close> other than the primitive string
  \<open>[object Object]\<close>, so for every object and with it every location, the reserve
  type is \<open>DestinationReserve\<close> exactly when \<open>tokenLocation\<close> is the location
  object of \<open>KSM_ASSET\<close>, and \<open>LocalReserve\<close> otherwise; for a reference to an
  object, as \<open>testAssetOrdering\<close> passes, this is a comparison of addresses. Whatever
  the token location and the order flag, the fee asset is \<open>NATIVE_TOKEN_LOCATION\<close>,
  the object \<open>{parents: 1, interior: "Here"}\<close>, the fee reserve type is
  \<open>LocalReserve\<close> and the weight limit \<open>Unlimited\<close>, and these are the arguments
  that \<open>createTransferExtrinsic\<close> passes to the library method.
\<close>

theorem createTransferExtrinsic_reserve_and_fee:
  "(tokenLocation \<noteq> JStr ''[object Object]'' \<longrightarrow>
      arg_reserveType (createTransferExtrinsic_args s tokenLocation amount destFee assetOrder beneficiary) =
        (if tokenLocation = JRef (location (KSM_ASSET s))
         then ''DestinationReserve'' else ''LocalReserve''))
   \<and> arg_reserveType (createTransferExtrinsic_args s (JRef a) amount destFee assetOrder beneficiary) =
        (if a = location (KSM_ASSET s) then ''DestinationReserve'' else ''LocalReserve'')
   \<and> arg_feeAsset (createTransferExtrinsic_args s tokenLocation amount destFee assetOrder beneficiary) =
       JObj [(''v4'', JRef native_location_addr)]
   \<and> heap module_init native_location_addr = Some [(''parents'', JNum 1), (''interior'', JStr ''Here'')]
   \<and> arg_feeReserveType (createTransferExtrinsic_args s tokenLocation amount destFee assetOrder beneficiary) =
       ''LocalReserve''
   \<and> arg_weightLimit (createTransferExtrinsic_args s tokenLocation amount destFee assetOrder beneficiary) =
       ''Unlimited''
   \<and> createTransferExtrinsic w api tokenLocation amount destFee assetOrder beneficiary s =
       ((case tx_error w api
                (createTransferExtrinsic_args s tokenLocation amount destFee assetOrder beneficiary) of
           Some e \<Rightarrow> Inl e
         | None \<Rightarrow>
             Inr (Extrinsic
               (createTransferExtrinsic_args s tokenLocation amount destFee assetOrder beneficiary))),
        s)"
  by (simp add: createTransferExtrinsic_args_def createTransferExtrinsic_def loose_eq_object_iff
        NATIVE_TOKEN_LOCATION_def module_init_def split: option.splits)

theorem createTransferExtrinsic_reserve_and_fee_witness:
  "JRef ksm_location_addr \<noteq> JStr ''[object Object]''
   \<and> arg_reserveType (createTransferExtrinsic_args module_init (JRef ksm_location_addr) ''50000000000''
       ''18718740000'' ''dot-first'' ''0x46'') = ''DestinationReserve''
   \<and> JRef wud_location_addr \<noteq> JStr ''[object Object]''
   \<and> arg_reserveType (createTransferExtrinsic_args module_init (JRef wud_location_addr) ''50000000000''
       ''29876830'' ''dot-first'' ''0x46'') = ''LocalReserve''
   \<and> JObj [(''parents'', JNum 2),
            (''interior'', JObj [(''x1'', JArr [
               JObj [(''globalConsensus'', JObj [(''kusama'', JNull)])]])])]
        \<noteq> JStr ''[object Object]''
   \<and> arg_reserveType (createTransferExtrinsic_args module_init
        (JObj [(''parents'', JNum 2),
               (''interior'', JObj [(''x1'', JArr [
                  JObj [(''globalConsensus'', JObj [(''kusama'', JNull)])]])])])
        ''50000000000'' ''18718740000'' ''dot-first'' ''0x46'') = ''LocalReserve''"
  using createTransferExtrinsic_reserve_and_fee
          [where s = module_init and tokenLocation = "JRef ksm_location_addr"
             and amount = "''50000000000''" and destFee = "''18718740000''"
             and assetOrder = "''dot-first''" and beneficiary = "''0x46''"
             and w = world_all_ok and api = "ApiPromise ''ws://127.0.0.1:9944''" and a = 0]
        createTransferExtrinsic_reserve_and_fee
          [where s = module_init and tokenLocation = "JRef wud_location_addr"
             and amount = "''50000000000''" and destFee = "''29876830''"
             and assetOrder = "''dot-first''" and beneficiary = "''0x46''"
             and w = world_all_ok and api = "ApiPromise ''ws://127.0.0.1:9944''" and a = 0]
        createTransferExtrinsic_reserve_and_fee
          [where s = module_init
             and tokenLocation = "JObj [(''parents'', JNum 2),
               (''interior'', JObj [(''x1'', JArr [
                  JObj [(''globalConsensus'', JObj [(''kusama'', JNull)])]])])]"
             and amount = "''50000000000''" and destFee = "''18718740000''"
             and assetOrder = "''dot-first''" and beneficiary = "''0x46''"
             and w = world_all_ok and api = "ApiPromise ''ws://127.0.0.1:9944''" and a = 0]
  by (simp add: module_init_def wud_location_addr_def ksm_location_addr_def)

section \<open>How often the dry run is called\<close>




section \<open>The order of the dry runs\<close>

text \<open>
  C6. In every run of the driver at most one remote call is in flight at any moment:
  each awaited call settles before the next one is sent. The extrinsics submitted to
  \<open>dryRunCall\<close> are, in this order, an initial part of: WUD token-first, WUD
  DOT-first, KSM token-first, KSM DOT-first; and all four when the run ends normally.
\<close>

theorem dry_runs_sequential_in_order:
  "max_in_flight [] (trace (snd (demonstrateAssetOrderingBug w module_init))) \<le> 1
   \<and> prefix (dry_run_calls (trace (snd (demonstrateAssetOrderingBug w module_init))))
       [Extrinsic (createTransferExtrinsic_args module_init (JRef (location (WUD_ASSET module_init)))
          demo_amount ''29876830'' ''token-first'' demo_testAccount),
        Extrinsic (createTransferExtrinsic_args module_init (JRef (location (WUD_ASSET module_init)))
          demo_amount ''29876830'' ''dot-first'' demo_testAccount),
        Extrinsic (createTransferExtrinsic_args module_init (JRef (location (KSM_ASSET module_init)))
          demo_amount ''18718740000'' ''token-first'' demo_testAccount),
        Extrinsic (createTransferExtrinsic_args module_init (JRef (location (KSM_ASSET module_init)))
          demo_amount ''18718740000'' ''dot-first'' demo_testAccount)]
   \<and> (fst (demonstrateAssetOrderingBug w module_init) = Normal () \<longrightarrow>
       dry_run_calls (trace (snd (demonstrateAssetOrderingBug w module_init))) =
       [Extrinsic (createTransferExtrinsic_args module_init (JRef (location (WUD_ASSET module_init)))
          demo_amount ''29876830'' ''token-first'' demo_testAccount),
        Extrinsic (createTransferExtrinsic_args module_init (JRef (location (WUD_ASSET module_init)))
          demo_amount ''29876830'' ''dot-first'' demo_testAccount),
        Extrinsic (createTransferExtrinsic_args module_init (JRef (location (KSM_ASSET module_init)))
          demo_amount ''18718740000'' ''token-first'' demo_testAccount),
        Extrinsic (createTransferExtrinsic_args module_init (JRef (location (KSM_ASSET module_init)))
          demo_amount ''18718740000'' ''dot-first'' demo_testAccount)])"
proof -
  have i: "trace module_init = []"
    by (simp add: module_init_def)
  have f: "max_in_flight [] (trace (snd (demonstrateAssetOrderingBug w module_init))) \<le> 1"
    by (rule demonstrateAssetOrderingBug_max_in_flight) (simp add: i remote_events_def)
  show ?thesis
    using f demonstrateAssetOrderingBug_dry_run_calls [of w module_init]
    by (simp add: i complete_run_dry_run_calls demo_tx_def)
qed

theorem dry_runs_sequential_in_order_witness:
  "fst (demonstrateAssetOrderingBug world_all_ok module_init) = Normal ()
   \<and> map (\<lambda>tx. case tx of Extrinsic args \<Rightarrow> arg_assets args)
       (dry_run_calls (trace (snd (demonstrateAssetOrderingBug world_all_ok module_init)))) =
       [JObj [(''v4'', JArr [
          JObj [(''id'', JRef 0), (''fun'', JObj [(''Fungible'', JStr ''50000000000'')])],
          JObj [(''id'', JRef 2), (''fun'', JObj [(''Fungible'', JStr ''29876830'')])]])],
        JObj [(''v4'', JArr [
          JObj [(''id'', JRef 2), (''fun'', JObj [(''Fungible'', JStr ''29876830'')])],
          JObj [(''id'', JRef 0), (''fun'', JObj [(''Fungible'', JStr ''50000000000'')])]])],
        JObj [(''v4'', JArr [
          JObj [(''id'', JRef 1), (''fun'', JObj [(''Fungible'', JStr ''50000000000'')])],
          JObj [(''id'', JRef 2), (''fun'', JObj [(''Fungible'', JStr ''18718740000'')])]])],
        JObj [(''v4'', JArr [
          JObj [(''id'', JRef 2), (''fun'', JObj [(''Fungible'', JStr ''18718740000'')])],
          JObj [(''id'', JRef 1), (''fun'', JObj [(''Fungible'', JStr ''50000000000'')])]])]]"
  using world_all_ok_normal [of module_init] dry_runs_sequential_in_order [of world_all_ok]
  by (simp add: createTransferExtrinsic_args_def module_init_def NATIVE_TOKEN_LOCATION_def
        wud_location_addr_def ksm_location_addr_def native_location_addr_def demo_amount_def)

section \<open>Reporting the outcome of a dry run\<close>



section \<open>Exceptions\<close>



section \<open>The asset descriptors are constants\<close>

text \<open>
  C9. After any sequence of calls of \<open>createTransferExtrinsic\<close> and
  \<open>testAssetOrdering\<close>, with any arguments and in any world, the two descriptors
  hold their initial literal values in every field, and so do the location objects
  they refer to.
\<close>

theorem descriptors_never_mutated:
  "WUD_ASSET (run_calls w cs module_init) =
     \<lparr>token = ''0x5fdcd48f09fb67de3d202cd854b372aec1100ed5'',
      name = ''GAVUN WUD'',
      symbol = ''WUD'',
      decimals = 10,
      location = wud_location_addr,
      assetId = Some ''31337''\<rparr>
   \<and> KSM_ASSET (run_calls w cs module_init) =
     \<lparr>token = ''0x12bbfdc9e813614eef8dc8a2560b0efbeaf7c2ab'',
      name = ''Kusama'',
      symbol = ''KSM'',
      decimals = 12,
      location = ksm_location_addr,
      assetId = None\<rparr>
   \<and> heap (run_calls w cs module_init) wud_location_addr =
       Some [(''parents'', JNum 0),
             (''interior'', JObj [(''x2'', JArr [
                JObj [(''palletInstance'', JNum 50)],
                JObj [(''generalIndex'', JNum 31337)]])])]
   \<and> heap (run_calls w cs module_init) ksm_location_addr =
       Some [(''parents'', JNum 2),
             (''interior'', JObj [(''x1'', JArr [
                JObj [(''globalConsensus'', JObj [(''kusama'', JNull)])]])])]"
  by (simp add: run_calls_globals)
     (simp add: module_init_def wud_location_addr_def ksm_location_addr_def
        native_location_addr_def)

theorem descriptors_never_mutated_witness:
  "symbol (WUD_ASSET (run_calls world_dry_run_rejects
       [Call_testAssetOrdering (ApiPromise ''ws://127.0.0.1:9944'') The_WUD_ASSET ''0x46''
          ''50000000000'' ''29876830'',
        Call_createTransferExtrinsic (ApiPromise ''ws://127.0.0.1:9944'') (JRef ksm_location_addr)
          ''50000000000'' ''18718740000'' ''dot-first'' ''0x46'',
        Call_testAssetOrdering (ApiPromise ''ws://127.0.0.1:9944'') The_KSM_ASSET ''0x46''
          ''50000000000'' ''18718740000'']
       module_init)) = ''WUD''
   \<and> decimals (KSM_ASSET (run_calls world_dry_run_rejects
       [Call_testAssetOrdering (ApiPromise ''ws://127.0.0.1:9944'') The_WUD_ASSET ''0x46''
          ''50000000000'' ''29876830'',
        Call_createTransferExtrinsic (ApiPromise ''ws://127.0.0.1:9944'') (JRef ksm_location_addr)
          ''50000000000'' ''18718740000'' ''dot-first'' ''0x46'',
        Call_testAssetOrdering (ApiPromise ''ws://127.0.0.1:9944'') The_KSM_ASSET ''0x46''
          ''50000000000'' ''18718740000'']
       module_init)) = 12"
  using descriptors_never_mutated [of world_dry_run_rejects
       "[Call_testAssetOrdering (ApiPromise ''ws://127.0.0.1:9944'') The_WUD_ASSET ''0x46''
          ''50000000000'' ''29876830'',
        Call_createTransferExtrinsic (ApiPromise ''ws://127.0.0.1:9944'') (JRef ksm_location_addr)
          ''50000000000'' ''18718740000'' ''dot-first'' ''0x46'',
        Call_testAssetOrdering (ApiPromise ''ws://127.0.0.1:9944'') The_KSM_ASSET ''0x46''
          ''50000000000'' ''18718740000'']"]
  by simp

section \<open>The connection\<close>

text \<open>
  C7, as the code has it. A run of the driver opens at most one connection, to the
  selected endpoint, and exactly one unless the constructor of the provider throws;
  every remote call is made on the handle of that connection. When the run ends
  normally, \<open>disconnect\<close> has been called exactly once and its settling is the last
  remote event of the run.
\<close>

theorem connection_lifecycle:
  "prefix (opened (trace (snd (demonstrateAssetOrderingBug w module_init)))) [POLKADOT_ASSET_HUB_WSS w]
   \<and> (WsProvider_error w (POLKADOT_ASSET_HUB_WSS w) = None \<longrightarrow>
        opened (trace (snd (demonstrateAssetOrderingBug w module_init))) = [POLKADOT_ASSET_HUB_WSS w])
   \<and> fst ` set (sent_calls (trace (snd (demonstrateAssetOrderingBug w module_init))))
        \<subseteq> {ApiPromise (POLKADOT_ASSET_HUB_WSS w)}
   \<and> (fst (demonstrateAssetOrderingBug w module_init) = Normal () \<longrightarrow>
        filter (\<lambda>c. snd c = Disconnect)
          (sent_calls (trace (snd (demonstrateAssetOrderingBug w module_init)))) =
          [(ApiPromise (POLKADOT_ASSET_HUB_WSS w), Disconnect)]
        \<and> last (remote_events (trace (snd (demonstrateAssetOrderingBug w module_init)))) =
          Settled (ApiPromise (POLKADOT_ASSET_HUB_WSS w)) Disconnect)"
proof -
  note conn = demonstrateAssetOrderingBug_connection [OF module_init_no_events, of w]
  have "filter (\<lambda>c. snd c = Disconnect)
          (sent_calls (trace (snd (demonstrateAssetOrderingBug w module_init)))) =
          [(ApiPromise (POLKADOT_ASSET_HUB_WSS w), Disconnect)]
        \<and> last (remote_events (trace (snd (demonstrateAssetOrderingBug w module_init)))) =
          Settled (ApiPromise (POLKADOT_ASSET_HUB_WSS w)) Disconnect"
    if n: "fst (demonstrateAssetOrderingBug w module_init) = Normal ()"
  proof -
    have "sent_calls (trace (snd (demonstrateAssetOrderingBug w module_init))) =
        sent_calls (complete_run_events w module_init)"
      using arg_cong [OF conn(4) [OF n], of sent_calls] by (simp add: sent_calls_remote)
    then show ?thesis
      by (simp add: conn(4) [OF n] complete_run_sent_calls complete_run_last)
  qed
  with conn(1,2,3) show ?thesis
    by simp
qed

theorem connection_lifecycle_witness:
  "fst (demonstrateAssetOrderingBug world_all_ok module_init) = Normal ()
   \<and> opened (trace (snd (demonstrateAssetOrderingBug world_all_ok module_init))) =
       [''wss://polkadot-asset-hub-rpc.polkadot.io'']
   \<and> filter (\<lambda>c. snd c = Disconnect)
        (sent_calls (trace (snd (demonstrateAssetOrderingBug world_all_ok module_init)))) =
       [(ApiPromise ''wss://polkadot-asset-hub-rpc.polkadot.io'', Disconnect)]"
  using world_all_ok_normal [of module_init] connection_lifecycle [of world_all_ok]
  by (simp add: POLKADOT_ASSET_HUB_WSS_def world_all_ok_def)

text \<open>
  The claim as stated, one connection and a disconnect in every execution, fails when
  the node cannot be reached: the connection is opened, \<open>ApiPromise.create\<close> rejects,
  and the process exits with code 1 without a call of \<open>disconnect\<close>. It also fails
  when the constructor of the provider refuses the endpoint: the process exits with
  code 1 and no connection was opened.
\<close>

theorem no_disconnect_when_setup_fails_counterexample:
  "fst (demonstrateAssetOrderingBug world_node_down module_init) = Exited 1
   \<and> opened (trace (snd (demonstrateAssetOrderingBug world_node_down module_init))) =
       [''wss://polkadot-asset-hub-rpc.polkadot.io'']
   \<and> sent_calls (trace (snd (demonstrateAssetOrderingBug world_node_down module_init))) =
       [(ApiPromise ''wss://polkadot-asset-hub-rpc.polkadot.io'', Create)]
   \<and> fst (demonstrateAssetOrderingBug world_bad_endpoint module_init) = Exited 1
   \<and> opened (trace (snd (demonstrateAssetOrderingBug world_bad_endpoint module_init))) = []
   \<and> sent_calls (trace (snd (demonstrateAssetOrderingBug world_bad_endpoint module_init))) = []"
  by (simp add: demonstrateAssetOrderingBug_def demonstrateAssetOrderingBug_try_def Let_def
        world_node_down_def world_bad_endpoint_def world_all_ok_def POLKADOT_ASSET_HUB_WSS_def
        console_log_def console_error_def emit_def module_init_def)

section \<open>The endpoint\<close>

text \<open>
  C8, as the code has it. The endpoint is the value of the environment variable
  \<open>POLKADOT_ASSET_HUB_WSS\<close> when that is set and not empty, and the default address
  when the variable is not set or is the empty string; it is the address the driver
  connects to. The rest of the environment does not matter: two environments that agree
  on this variable give the same run.
\<close>

theorem endpoint_selection:
  "(process_env w ''POLKADOT_ASSET_HUB_WSS'' = Some v \<and> v \<noteq> [] \<longrightarrow> POLKADOT_ASSET_HUB_WSS w = v)
   \<and> (process_env w ''POLKADOT_ASSET_HUB_WSS'' = None
       \<or> process_env w ''POLKADOT_ASSET_HUB_WSS'' = Some [] \<longrightarrow>
      POLKADOT_ASSET_HUB_WSS w = ''wss://polkadot-asset-hub-rpc.polkadot.io'')
   \<and> (WsProvider_error w (POLKADOT_ASSET_HUB_WSS w) = None \<longrightarrow>
      opened (trace (snd (demonstrateAssetOrderingBug w module_init))) = [POLKADOT_ASSET_HUB_WSS w])
   \<and> (pe ''POLKADOT_ASSET_HUB_WSS'' = pe' ''POLKADOT_ASSET_HUB_WSS'' \<longrightarrow>
      main (w\<lparr>process_env := pe\<rparr>) s = main (w\<lparr>process_env := pe'\<rparr>) s)"
  using demonstrateAssetOrderingBug_connection(2) [OF module_init_no_events, of w]
    main_env [of pe pe' w s]
  by (auto simp: POLKADOT_ASSET_HUB_WSS_def)

theorem endpoint_selection_witness:
  "POLKADOT_ASSET_HUB_WSS world_custom_endpoint = ''ws://127.0.0.1:9944''
   \<and> POLKADOT_ASSET_HUB_WSS world_all_ok = ''wss://polkadot-asset-hub-rpc.polkadot.io''
   \<and> POLKADOT_ASSET_HUB_WSS world_empty_endpoint = ''wss://polkadot-asset-hub-rpc.polkadot.io''
   \<and> opened (trace (snd (demonstrateAssetOrderingBug world_custom_endpoint module_init))) =
       [''ws://127.0.0.1:9944'']
   \<and> main (world_all_ok\<lparr>process_env := [''HOME'' \<mapsto> ''/root'']\<rparr>) module_init =
       main (world_all_ok\<lparr>process_env := Map.empty\<rparr>) module_init"
proof -
  have custom: "process_env world_custom_endpoint ''POLKADOT_ASSET_HUB_WSS'' = Some ''ws://127.0.0.1:9944''"
    "WsProvider_error world_custom_endpoint e = None" for e
    by (simp_all add: world_custom_endpoint_def world_all_ok_def)
  have unset: "process_env world_all_ok ''POLKADOT_ASSET_HUB_WSS'' = None"
    by (simp add: world_all_ok_def)
  have empty: "process_env world_empty_endpoint ''POLKADOT_ASSET_HUB_WSS'' = Some []"
    by (simp add: world_empty_endpoint_def)
  have other: "[''HOME'' \<mapsto> ''/root''] ''POLKADOT_ASSET_HUB_WSS'' = Map.empty ''POLKADOT_ASSET_HUB_WSS''"
    by simp
  show ?thesis
    using custom unset empty other
      endpoint_selection [of world_empty_endpoint "''ws://127.0.0.1:9944''"
        "[''HOME'' \<mapsto> ''/root'']" Map.empty module_init]
      endpoint_selection [of world_custom_endpoint "''ws://127.0.0.1:9944''"
        "[''HOME'' \<mapsto> ''/root'']" Map.empty module_init]
      endpoint_selection [of world_all_ok "''ws://127.0.0.1:9944''"
        "[''HOME'' \<mapsto> ''/root'']" Map.empty module_init]
    by simp
qed

text \<open>
  The claim as stated, the value of the variable whenever it is set, fails for a
  variable set to the empty string: the driver connects to the default address.
\<close>

theorem empty_endpoint_variable_counterexample:
  "process_env world_empty_endpoint ''POLKADOT_ASSET_HUB_WSS'' = Some []
   \<and> POLKADOT_ASSET_HUB_WSS world_empty_endpoint = ''wss://polkadot-asset-hub-rpc.polkadot.io''
   \<and> POLKADOT_ASSET_HUB_WSS world_empty_endpoint \<noteq> []
   \<and> opened (trace (snd (demonstrateAssetOrderingBug world_empty_endpoint module_init))) =
       [''wss://polkadot-asset-hub-rpc.polkadot.io'']"
proof -
  have e: "POLKADOT_ASSET_HUB_WSS world_empty_endpoint = ''wss://polkadot-asset-hub-rpc.polkadot.io''"
    by (simp add: POLKADOT_ASSET_HUB_WSS_def world_empty_endpoint_def)
  have p: "WsProvider_error world_empty_endpoint (POLKADOT_ASSET_HUB_WSS world_empty_endpoint) = None"
    by (simp add: world_empty_endpoint_def world_all_ok_def)
  show ?thesis
    using demonstrateAssetOrderingBug_connection(2) [OF module_init_no_events p]
    by (simp add: e) (simp add: world_empty_endpoint_def)
qed

end
